theory Spec2Isabelle
  imports Main "HOL-Library.Sublist"
begin

section \<open>CorsIssueDetailsView: the affected-resources table of a CORS issue\<close>

text \<open>
  A shallow embedding of \<^verbatim>\<open>front_end/panels/issues/CorsIssueDetailsView.ts\<close>.
  The view renders, for an aggregated CORS issue, one header row and one data row per
  issue into the \<^verbatim>\<open>affectedResources\<close> element and reports the number of rows.
  DOM mutation is explicit state passing over the record \<open>view\<close>; a JavaScript
  exception is the first component of the result (\<open>Some e\<close>), next to the state
  as the exception left it.
\<close>

subsection \<open>Data model\<close>

text \<open>
  \<^verbatim>\<open>IssuesManager.CorsIssue.IssueCode\<close>: the ten members the two switches handle and
  the five members named in the type argument of \<^verbatim>\<open>Platform.assertUnhandled\<close>.
\<close>

datatype IssueCode =
    InvalidHeaderValues
  | WildcardOriginNotAllowed
  | PreflightResponseInvalid
  | OriginMismatch
  | AllowCredentialsRequired
  | InsecurePrivateNetwork
  | InsecurePrivateNetworkPreflight
  | MethodDisallowedByPreflightResponse
  | HeaderDisallowedByPreflightResponse
  | RedirectContainsCredentials
  | DisallowedByMode
  | CorsDisabledScheme
  | PreflightMissingAllowExternal
  | PreflightInvalidAllowExternal
  | InvalidResponse

text \<open>
  \<^verbatim>\<open>Protocol.Network.CorsError\<close> is a string enum: at run time a value is a string,
  \<^verbatim>\<open>switch\<close> compares it with \<^verbatim>\<open>===\<close> and \<^verbatim>\<open>includes\<close> searches it.
\<close>

type_synonym CorsError = string

text \<open>
  Modelled from the spec: the declaration of \<^verbatim>\<open>Protocol.Network.CorsError\<close> is not
  part of the source file. The spec says the substring test is on the error kind's name,
  so the textual form of each member is its name. The ten definitions below are the
  members the source names.
\<close>

definition InvalidAllowHeadersPreflightResponse :: CorsError where
  "InvalidAllowHeadersPreflightResponse = ''InvalidAllowHeadersPreflightResponse''"

definition InvalidAllowMethodsPreflightResponse :: CorsError where
  "InvalidAllowMethodsPreflightResponse = ''InvalidAllowMethodsPreflightResponse''"

definition PreflightMissingAllowOriginHeader :: CorsError where
  "PreflightMissingAllowOriginHeader = ''PreflightMissingAllowOriginHeader''"

definition PreflightMultipleAllowOriginValues :: CorsError where
  "PreflightMultipleAllowOriginValues = ''PreflightMultipleAllowOriginValues''"

definition PreflightInvalidAllowOriginValue :: CorsError where
  "PreflightInvalidAllowOriginValue = ''PreflightInvalidAllowOriginValue''"

definition MissingAllowOriginHeader :: CorsError where
  "MissingAllowOriginHeader = ''MissingAllowOriginHeader''"

definition MultipleAllowOriginValues :: CorsError where
  "MultipleAllowOriginValues = ''MultipleAllowOriginValues''"

definition InvalidAllowOriginValue :: CorsError where
  "InvalidAllowOriginValue = ''InvalidAllowOriginValue''"

definition PreflightInvalidStatus :: CorsError where
  "PreflightInvalidStatus = ''PreflightInvalidStatus''"

definition PreflightDisallowedRedirect :: CorsError where
  "PreflightDisallowedRedirect = ''PreflightDisallowedRedirect''"

text \<open>
  The fields of \<^verbatim>\<open>issue.details()\<close> that the view reads. The protocol's type
  declarations are not part of the source file; a field the source reads through
  \<^verbatim>\<open>?.\<close> or \<^verbatim>\<open>??\<close> is optional here.
\<close>

record AffectedRequest =
  requestId :: string
  url :: "string option"

record CorsErrorStatus =
  corsError :: CorsError
  failedParameter :: string

record ClientSecurityState =
  initiatorIsSecureContext :: "bool option"
  initiatorIPAddressSpace :: "string option"

record CorsIssueDetails =
  request :: AffectedRequest
  isWarning :: bool
  corsErrorStatus :: CorsErrorStatus
  initiatorOrigin :: "string option"
  resourceIPAddressSpace :: "string option"
  clientSecurityState :: "ClientSecurityState option"

text \<open>A \<^verbatim>\<open>CorsIssue\<close>, seen through its methods \<^verbatim>\<open>code()\<close> and \<^verbatim>\<open>details()\<close>.\<close>

record CorsIssue =
  code :: IssueCode
  details :: CorsIssueDetails

text \<open>
  Table cells. \<open>StatusCell cls text\<close> is the \<^verbatim>\<open>td\<close> that \<^verbatim>\<open>appendStatus\<close>
  builds, with its class and its text; the other three are what the helpers of the base
  class \<^verbatim>\<open>AffectedResourcesView\<close> produce, recorded with the arguments of the call:
  the title of \<^verbatim>\<open>appendColumnTitle\<close>, the request and the \<^verbatim>\<open>linkToPreflight\<close>
  option of \<^verbatim>\<open>createRequestCell\<close>, the text and the additional class of
  \<^verbatim>\<open>appendIssueDetailCell\<close>.
\<close>

datatype cell =
    ColumnTitle string
  | RequestCell AffectedRequest bool
  | StatusCell string string
  | IssueDetailCell string "string option"

text \<open>A \<^verbatim>\<open>tr\<close> element: its class list and its child cells in document order.\<close>

datatype tr = Tr (classList: "string list") (children: "cell list")

text \<open>
  The part of the view the rendering writes: the rows of the \<^verbatim>\<open>affectedResources\<close>
  element, and the counts passed to \<^verbatim>\<open>updateAffectedResourceCount\<close>, oldest first.
\<close>

record view =
  affectedResources :: "tr list"
  affectedResourceCounts :: "nat list"

text \<open>
  \<open>InvalidArgument\<close> is \<^verbatim>\<open>throw new Error('Invalid Argument')\<close>;
  \<open>UnhandledVariant\<close> is the failure of \<^verbatim>\<open>Platform.assertUnhandled\<close>.
\<close>

datatype error = InvalidArgument | UnhandledVariant

subsection \<open>Localized strings\<close>

definition UIStrings_warning :: string where "UIStrings_warning = ''warning''"
definition UIStrings_blocked :: string where "UIStrings_blocked = ''blocked''"
definition UIStrings_status :: string where "UIStrings_status = ''Status''"
definition UIStrings_request :: string where "UIStrings_request = ''Request''"
definition UIStrings_resourceAddressSpace :: string where
  "UIStrings_resourceAddressSpace = ''Resource Address''"
definition UIStrings_initiatorAddressSpace :: string where
  "UIStrings_initiatorAddressSpace = ''Initiator Address''"
definition UIStrings_secure :: string where "UIStrings_secure = ''secure''"
definition UIStrings_insecure :: string where "UIStrings_insecure = ''insecure''"
definition UIStrings_initiatorContext :: string where
  "UIStrings_initiatorContext = ''Initiator Context''"
definition UIStrings_preflightRequestIfProblematic :: string where
  "UIStrings_preflightRequestIfProblematic = ''Preflight Request (if problematic)''"
definition UIStrings_preflightRequest :: string where
  "UIStrings_preflightRequest = ''Preflight Request''"
definition UIStrings_header :: string where "UIStrings_header = ''Header''"
definition UIStrings_problem :: string where "UIStrings_problem = ''Problem''"
definition UIStrings_invalidValue :: string where
  "UIStrings_invalidValue = ''Invalid Value (if available)''"
definition UIStrings_problemMissingHeader :: string where
  "UIStrings_problemMissingHeader = ''Missing Header''"
definition UIStrings_problemMultipleValues :: string where
  "UIStrings_problemMultipleValues = ''Multiple Values''"
definition UIStrings_problemInvalidValue :: string where
  "UIStrings_problemInvalidValue = ''Invalid Value''"
definition UIStrings_preflightDisallowedRedirect :: string where
  "UIStrings_preflightDisallowedRedirect = ''Response to preflight was a redirect''"
definition UIStrings_preflightInvalidStatus :: string where
  "UIStrings_preflightInvalidStatus =
     ''HTTP status of preflight request didn'' @ [CHR 0x27] @ ''t indicate success''"
definition UIStrings_allowedOrigin :: string where
  "UIStrings_allowedOrigin = ''Allowed Origin (from header)''"
definition UIStrings_allowCredentialsValueFromHeader :: string where
  "UIStrings_allowCredentialsValueFromHeader =
     ''`Access-Control-Allow-Credentials` Header Value''"
definition UIStrings_disallowedRequestMethod :: string where
  "UIStrings_disallowedRequestMethod = ''Disallowed Request Method''"
definition UIStrings_disallowedRequestHeader :: string where
  "UIStrings_disallowedRequestHeader = ''Disallowed Request Header''"

text \<open>
  Modelled from the spec: the localized-string provider (\<^verbatim>\<open>i18n.getLocalizedString\<close>)
  is not part of the source file. The spec gives it as a lookup from a registered string
  to a string; in the locale of the source it returns the registered string.
\<close>

definition i18nString :: "string \<Rightarrow> string" where
  "i18nString s = s"

subsection \<open>The platform, the DOM and the base class\<close>

text \<open>
  Modelled from the spec: \<^verbatim>\<open>Platform.assertUnhandled\<close> is not part of the source
  file. The spec says that a subtype reaching the default of a dispatch triggers a fatal
  "unhandled variant" assertion, so the call never returns a value.
\<close>

definition assertUnhandled :: "IssueCode \<Rightarrow> error + IssueCode" where
  "assertUnhandled caseVariable = Inl UnhandledVariant"

text \<open>
  \<^verbatim>\<open>element.appendChild(cell)\<close> of the DOM, on a \<^verbatim>\<open>tr\<close>: the cell becomes the last
  child.
\<close>

fun appendChild :: "tr \<Rightarrow> cell \<Rightarrow> tr" where
  "appendChild (Tr cls cs) c = Tr cls (cs @ [c])"

text \<open>
  Modelled from the spec: \<^verbatim>\<open>appendColumnTitle\<close> of the base class
  \<^verbatim>\<open>AffectedResourcesView\<close> is not part of the source file. The spec gives it as
  \<^verbatim>\<open>appendColumnHeader(row, title)\<close>: one title cell appended to the row.
\<close>

definition appendColumnTitle :: "tr \<Rightarrow> string \<Rightarrow> tr" where
  "appendColumnTitle header title = appendChild header (ColumnTitle title)"

text \<open>
  Modelled from the spec: \<^verbatim>\<open>appendIssueDetailCell\<close> of the base class is not part of
  the source file. The spec gives it as \<^verbatim>\<open>appendCell(row, text, styleClass?)\<close>: one
  cell with that text and that optional class appended to the row.
\<close>

definition appendIssueDetailCell :: "tr \<Rightarrow> string \<Rightarrow> string option \<Rightarrow> tr" where
  "appendIssueDetailCell element textContent additionalClass =
     appendChild element (IssueDetailCell textContent additionalClass)"

text \<open>
  Modelled from the spec: \<^verbatim>\<open>createRequestCell\<close> of the base class is not part of the
  source file. The spec gives it as \<^verbatim>\<open>appendRequestLinkCell(request, {linkToPreflight?})\<close>;
  the source appends the cell it returns itself. An omitted option is \<open>False\<close>.
\<close>

definition createRequestCell :: "AffectedRequest \<Rightarrow> bool \<Rightarrow> cell" where
  "createRequestCell req linkToPreflight = RequestCell req linkToPreflight"

text \<open>
  Modelled from the spec: \<^verbatim>\<open>updateAffectedResourceCount\<close> of the base class is not
  part of the source file. The spec gives it as \<^verbatim>\<open>reportRowCount(n)\<close>, a report to
  the external counter; the view records the reports in order.
\<close>

definition updateAffectedResourceCount :: "nat \<Rightarrow> view \<Rightarrow> view" where
  "updateAffectedResourceCount n v =
     v\<lparr>affectedResourceCounts := affectedResourceCounts v @ [n]\<rparr>"

text \<open>
  Modelled from the spec: \<^verbatim>\<open>clear\<close> of the base class is not part of the source
  file. The spec says it clears the prior rendered content.
\<close>

definition clear :: "view \<Rightarrow> view" where
  "clear v = v\<lparr>affectedResources := []\<rparr>"

text \<open>
  \<^verbatim>\<open>String.prototype.includes\<close>: whether \<open>searchString\<close> occurs in \<open>s\<close> as a
  contiguous run of characters.
\<close>

fun includes_str :: "string \<Rightarrow> string \<Rightarrow> bool" where
  "includes_str [] searchString = (searchString = [])"
| "includes_str (c # cs) searchString =
     (prefix searchString (c # cs) \<or> includes_str cs searchString)"

subsection \<open>The view\<close>

text \<open>\<^verbatim>\<open>appendStatus(element, isWarning)\<close>\<close>

definition appendStatus :: "tr \<Rightarrow> bool \<Rightarrow> tr" where
  "appendStatus element isWarning' =
     (let status =
        (if isWarning'
         then StatusCell ''affected-resource-report-only-status'' (i18nString UIStrings_warning)
         else StatusCell ''affected-resource-blocked-status'' (i18nString UIStrings_blocked))
      in appendChild element status)"

text \<open>\<^verbatim>\<open>appendSecureContextCell(element, isSecureContext)\<close>\<close>

definition appendSecureContextCell :: "tr \<Rightarrow> bool option \<Rightarrow> tr" where
  "appendSecureContextCell element isSecureContext =
     (case isSecureContext of
        None \<Rightarrow> appendIssueDetailCell element '''' None
      | Some b \<Rightarrow>
          appendIssueDetailCell element
            (if b then i18nString UIStrings_secure else i18nString UIStrings_insecure) None)"

text \<open>
  \<^verbatim>\<open>getHeaderFromError(corsError)\<close>: the cases in the order of the switch; falling
  out of the switch throws.
\<close>

definition getHeaderFromError :: "CorsError \<Rightarrow> error + string" where
  "getHeaderFromError e =
     (if e = InvalidAllowHeadersPreflightResponse then Inr ''Access-Control-Allow-Headers''
      else if e = InvalidAllowMethodsPreflightResponse then Inr ''Access-Control-Allow-Methods''
      else if e = PreflightMissingAllowOriginHeader
            \<or> e = PreflightMultipleAllowOriginValues
            \<or> e = PreflightInvalidAllowOriginValue
            \<or> e = MissingAllowOriginHeader
            \<or> e = MultipleAllowOriginValues
            \<or> e = InvalidAllowOriginValue then Inr ''Access-Control-Allow-Origin''
      else Inl InvalidArgument)"

text \<open>\<^verbatim>\<open>getProblemFromError(corsError)\<close>, on a \<^verbatim>\<open>CorsErrorStatus\<close>.\<close>

definition getProblemFromError :: "CorsErrorStatus \<Rightarrow> error + string" where
  "getProblemFromError s =
     (let e = corsError s in
      if e = InvalidAllowHeadersPreflightResponse
       \<or> e = InvalidAllowMethodsPreflightResponse
       \<or> e = PreflightInvalidAllowOriginValue
       \<or> e = InvalidAllowOriginValue then Inr (i18nString UIStrings_problemInvalidValue)
      else if e = PreflightMultipleAllowOriginValues
            \<or> e = MultipleAllowOriginValues then Inr (i18nString UIStrings_problemMultipleValues)
      else if e = MissingAllowOriginHeader
            \<or> e = PreflightMissingAllowOriginHeader then Inr (i18nString UIStrings_problemMissingHeader)
      else if e = PreflightInvalidStatus then Inr (i18nString UIStrings_preflightInvalidStatus)
      else if e = PreflightDisallowedRedirect then Inr (i18nString UIStrings_preflightDisallowedRedirect)
      else Inl InvalidArgument)"

text \<open>
  \<^verbatim>\<open>appendDetail(issueCode, issue)\<close>. The row is built in a local element and appended
  to \<^verbatim>\<open>affectedResources\<close> by the last statement, so an exception leaves the view as
  it was. The switch is the chain of tests below, in the order of its cases, with the
  \<^verbatim>\<open>default\<close> last.
\<close>

definition appendDetail :: "IssueCode \<Rightarrow> CorsIssue \<Rightarrow> view \<Rightarrow> error option \<times> view" where
  "appendDetail issueCode issue v =
     (let element = Tr [''affected-resource-directive''] [];
          d = details issue;
          element = appendChild element (createRequestCell (request d) False);
          element = appendStatus element (isWarning d);
          e = corsError (corsErrorStatus d);
          built =
            (if issueCode = InvalidHeaderValues then
               (let element =
                      (if includes_str e ''Preflight''
                       then appendChild element (createRequestCell (request d) True)
                       else appendIssueDetailCell element '''' None)
                in case getHeaderFromError e of
                     Inl err \<Rightarrow> Inl err
                   | Inr headerName \<Rightarrow>
                       (let element = appendIssueDetailCell element headerName (Some ''code-example'')
                        in case getProblemFromError (corsErrorStatus d) of
                             Inl err \<Rightarrow> Inl err
                           | Inr problem \<Rightarrow>
                               (let element = appendIssueDetailCell element problem None
                                in Inr (appendIssueDetailCell element
                                          (failedParameter (corsErrorStatus d))
                                          (Some ''code-example'')))))
             else if issueCode = WildcardOriginNotAllowed then
               Inr (if includes_str e ''Preflight''
                    then appendChild element (createRequestCell (request d) True)
                    else appendIssueDetailCell element '''' None)
             else if issueCode = PreflightResponseInvalid then
               (let element = appendChild element (createRequestCell (request d) True)
                in case getProblemFromError (corsErrorStatus d) of
                     Inl err \<Rightarrow> Inl err
                   | Inr problem \<Rightarrow> Inr (appendIssueDetailCell element problem None))
             else if issueCode = OriginMismatch then
               (let element =
                      (if includes_str e ''Preflight''
                       then appendChild element (createRequestCell (request d) True)
                       else appendIssueDetailCell element '''' None);
                    element = appendIssueDetailCell element
                                (case initiatorOrigin d of None \<Rightarrow> '''' | Some s \<Rightarrow> s)
                                (Some ''code-example'')
                in Inr (appendIssueDetailCell element
                          (failedParameter (corsErrorStatus d)) (Some ''code-example'')))
             else if issueCode = AllowCredentialsRequired then
               (let element =
                      (if includes_str e ''Preflight''
                       then appendChild element (createRequestCell (request d) True)
                       else appendIssueDetailCell element '''' None)
                in Inr (appendIssueDetailCell element
                          (failedParameter (corsErrorStatus d)) (Some ''code-example'')))
             else if issueCode = InsecurePrivateNetwork
                   \<or> issueCode = InsecurePrivateNetworkPreflight then
               (let element = appendIssueDetailCell element
                                (case resourceIPAddressSpace d of None \<Rightarrow> '''' | Some s \<Rightarrow> s)
                                None;
                    element = appendIssueDetailCell element
                                (case Option.bind (clientSecurityState d) initiatorIPAddressSpace of
                                   None \<Rightarrow> '''' | Some s \<Rightarrow> s)
                                None
                in Inr (appendSecureContextCell element
                          (Option.bind (clientSecurityState d) initiatorIsSecureContext)))
             else if issueCode = MethodDisallowedByPreflightResponse then
               (let element = appendChild element (createRequestCell (request d) True)
                in Inr (appendIssueDetailCell element
                          (failedParameter (corsErrorStatus d)) (Some ''code-example'')))
             else if issueCode = HeaderDisallowedByPreflightResponse then
               (let element = appendChild element (createRequestCell (request d) True)
                in Inr (appendIssueDetailCell element
                          (failedParameter (corsErrorStatus d)) (Some ''code-example'')))
             else if issueCode = RedirectContainsCredentials then
               Inr element
             else
               (case assertUnhandled issueCode of
                  Inl err \<Rightarrow> Inl err
                | Inr _ \<Rightarrow> Inr element))
      in case built of
           Inl err \<Rightarrow> (Some err, v)
         | Inr element \<Rightarrow> (None, v\<lparr>affectedResources := affectedResources v @ [element]\<rparr>))"

text \<open>
  The loop of \<^verbatim>\<open>appendDetails\<close>:
  \<^verbatim>\<open>for (const issue of issues) { count++; this.appendDetail(issueCode, issue); }\<close>.
  An exception of \<^verbatim>\<open>appendDetail\<close> ends it with the rows appended so far.
\<close>

fun appendDetails_loop ::
  "IssueCode \<Rightarrow> CorsIssue list \<Rightarrow> nat \<Rightarrow> view \<Rightarrow> error option \<times> nat \<times> view" where
  "appendDetails_loop issueCode [] count v = (None, count, v)"
| "appendDetails_loop issueCode (issue # rest) count v =
     (case appendDetail issueCode issue v of
        (Some err, v') \<Rightarrow> (Some err, Suc count, v')
      | (None, v') \<Rightarrow> appendDetails_loop issueCode rest (Suc count) v')"

text \<open>
  \<^verbatim>\<open>appendDetails(issueCode, issues)\<close>: the header row, then the loop, then the report
  of the count. The header is appended to \<^verbatim>\<open>affectedResources\<close> after the switch, so
  an exception in the switch appends nothing.
\<close>

definition appendDetails :: "IssueCode \<Rightarrow> CorsIssue list \<Rightarrow> view \<Rightarrow> error option \<times> view" where
  "appendDetails issueCode issues v =
     (let header = Tr [] [];
          header = appendColumnTitle header (i18nString UIStrings_request);
          header = appendColumnTitle header (i18nString UIStrings_status);
          built =
            (if issueCode = InvalidHeaderValues then
               (let header = appendColumnTitle header (i18nString UIStrings_preflightRequestIfProblematic);
                    header = appendColumnTitle header (i18nString UIStrings_header);
                    header = appendColumnTitle header (i18nString UIStrings_problem)
                in Inr (appendColumnTitle header (i18nString UIStrings_invalidValue)))
             else if issueCode = WildcardOriginNotAllowed then
               Inr (appendColumnTitle header (i18nString UIStrings_preflightRequestIfProblematic))
             else if issueCode = PreflightResponseInvalid then
               (let header = appendColumnTitle header (i18nString UIStrings_preflightRequest)
                in Inr (appendColumnTitle header (i18nString UIStrings_problem)))
             else if issueCode = OriginMismatch then
               (let header = appendColumnTitle header (i18nString UIStrings_preflightRequestIfProblematic);
                    header = appendColumnTitle header (i18nString UIStrings_initiatorContext)
                in Inr (appendColumnTitle header (i18nString UIStrings_allowedOrigin)))
             else if issueCode = AllowCredentialsRequired then
               (let header = appendColumnTitle header (i18nString UIStrings_preflightRequestIfProblematic)
                in Inr (appendColumnTitle header (i18nString UIStrings_allowCredentialsValueFromHeader)))
             else if issueCode = InsecurePrivateNetwork
                   \<or> issueCode = InsecurePrivateNetworkPreflight then
               (let header = appendColumnTitle header (i18nString UIStrings_resourceAddressSpace);
                    header = appendColumnTitle header (i18nString UIStrings_initiatorAddressSpace)
                in Inr (appendColumnTitle header (i18nString UIStrings_initiatorContext)))
             else if issueCode = MethodDisallowedByPreflightResponse then
               (let header = appendColumnTitle header (i18nString UIStrings_preflightRequest)
                in Inr (appendColumnTitle header (i18nString UIStrings_disallowedRequestMethod)))
             else if issueCode = HeaderDisallowedByPreflightResponse then
               (let header = appendColumnTitle header (i18nString UIStrings_preflightRequest)
                in Inr (appendColumnTitle header (i18nString UIStrings_disallowedRequestHeader)))
             else if issueCode = RedirectContainsCredentials then
               Inr header
             else
               (case assertUnhandled issueCode of
                  Inl err \<Rightarrow> Inl err
                | Inr _ \<Rightarrow> Inr header))
      in case built of
           Inl err \<Rightarrow> (Some err, v)
         | Inr header \<Rightarrow>
             (case appendDetails_loop issueCode issues 0
                     (v\<lparr>affectedResources := affectedResources v @ [header]\<rparr>) of
                (Some err, count, v') \<Rightarrow> (Some err, v')
              | (None, count, v') \<Rightarrow> (None, updateAffectedResourceCount count v')))"

text \<open>
  \<^verbatim>\<open>update()\<close>. The argument \<open>issues\<close> is what \<^verbatim>\<open>this.issue.getCorsIssues()\<close>
  returns, a set in iteration order; \<^verbatim>\<open>issues.values().next().value\<close> is its first
  element.
\<close>

definition update :: "CorsIssue list \<Rightarrow> view \<Rightarrow> error option \<times> view" where
  "update issues v =
     (let v = clear v in
      if length issues > 0
      then appendDetails (code (hd issues)) issues v
      else (None, updateAffectedResourceCount 0 v))"

subsection \<open>Observing the header\<close>

text \<open>
  The header row that \<^verbatim>\<open>appendDetails\<close> appends for a code, read off a run on no
  record and an empty view; \<open>None\<close> when that run throws.
\<close>

definition headerRow :: "IssueCode \<Rightarrow> tr option" where
  "headerRow issueCode =
     (case appendDetails issueCode []
             \<lparr>affectedResources = [], affectedResourceCounts = []\<rparr> of
        (None, v') \<Rightarrow> Some (last (affectedResources v'))
      | (Some err, v') \<Rightarrow> None)"

subsection \<open>Sample records\<close>

text \<open>Concrete issues and a concrete view, on which the theorems below are instantiated.\<close>

definition example_request :: AffectedRequest where
  "example_request = \<lparr>requestId = ''1000.1'', url = Some ''https://a.test/data''\<rparr>"

definition example_issue :: "IssueCode \<Rightarrow> CorsError \<Rightarrow> CorsIssue" where
  "example_issue c e =
     \<lparr>code = c,
      details =
        \<lparr>request = example_request,
         isWarning = False,
         corsErrorStatus = \<lparr>corsError = e, failedParameter = ''https://b.test''\<rparr>,
         initiatorOrigin = Some ''https://a.test'',
         resourceIPAddressSpace = Some ''Private'',
         clientSecurityState =
           Some \<lparr>initiatorIsSecureContext = Some False,
                 initiatorIPAddressSpace = Some ''Public''\<rparr>\<rparr>\<rparr>"

definition example_view :: view where
  "example_view =
     \<lparr>affectedResources = [Tr [] [ColumnTitle ''Request'']], affectedResourceCounts = [7]\<rparr>"

text \<open>
  Collections of two records of one code each; in the last, the second record has an
  error kind that \<^verbatim>\<open>getHeaderFromError\<close> does not map.
\<close>

definition example_issues_mismatch :: "CorsIssue list" where
  "example_issues_mismatch =
     [example_issue OriginMismatch ''PreflightAllowOriginMismatch'',
      example_issue OriginMismatch ''AllowOriginMismatch'']"

definition example_issues_headers :: "CorsIssue list" where
  "example_issues_headers =
     [example_issue InvalidHeaderValues PreflightMissingAllowOriginHeader,
      example_issue InvalidHeaderValues InvalidAllowOriginValue]"

definition example_issues_preflight :: "CorsIssue list" where
  "example_issues_preflight =
     [example_issue PreflightResponseInvalid PreflightInvalidStatus,
      example_issue PreflightResponseInvalid PreflightDisallowedRedirect]"

definition example_issues_unmapped :: "CorsIssue list" where
  "example_issues_unmapped =
     [example_issue InvalidHeaderValues MissingAllowOriginHeader,
      example_issue InvalidHeaderValues PreflightInvalidStatus]"

section \<open>Properties\<close>

subsection \<open>Unfolding rules and basic facts\<close>

lemmas CorsError_defs =
  InvalidAllowHeadersPreflightResponse_def InvalidAllowMethodsPreflightResponse_def
  PreflightMissingAllowOriginHeader_def PreflightMultipleAllowOriginValues_def
  PreflightInvalidAllowOriginValue_def MissingAllowOriginHeader_def
  MultipleAllowOriginValues_def InvalidAllowOriginValue_def
  PreflightInvalidStatus_def PreflightDisallowedRedirect_def

lemmas UIStrings_defs =
  UIStrings_warning_def UIStrings_blocked_def UIStrings_status_def UIStrings_request_def
  UIStrings_resourceAddressSpace_def UIStrings_initiatorAddressSpace_def
  UIStrings_secure_def UIStrings_insecure_def UIStrings_initiatorContext_def
  UIStrings_preflightRequestIfProblematic_def UIStrings_preflightRequest_def
  UIStrings_header_def UIStrings_problem_def UIStrings_invalidValue_def
  UIStrings_problemMissingHeader_def UIStrings_problemMultipleValues_def
  UIStrings_problemInvalidValue_def UIStrings_preflightDisallowedRedirect_def
  UIStrings_preflightInvalidStatus_def UIStrings_allowedOrigin_def
  UIStrings_allowCredentialsValueFromHeader_def UIStrings_disallowedRequestMethod_def
  UIStrings_disallowedRequestHeader_def

lemmas view_defs =
  appendColumnTitle_def appendIssueDetailCell_def createRequestCell_def appendStatus_def
  appendSecureContextCell_def i18nString_def

lemma CorsError_distinct:
  "distinct [InvalidAllowHeadersPreflightResponse, InvalidAllowMethodsPreflightResponse,
     PreflightMissingAllowOriginHeader, PreflightMultipleAllowOriginValues,
     PreflightInvalidAllowOriginValue, MissingAllowOriginHeader, MultipleAllowOriginValues,
     InvalidAllowOriginValue, PreflightInvalidStatus, PreflightDisallowedRedirect]"
  by (simp add: CorsError_defs)

lemma getHeaderFromError_Inr_iff:
  "(\<exists>h. getHeaderFromError e = Inr h) \<longleftrightarrow>
     e \<in> {InvalidAllowHeadersPreflightResponse, InvalidAllowMethodsPreflightResponse,
          PreflightMissingAllowOriginHeader, PreflightMultipleAllowOriginValues,
          PreflightInvalidAllowOriginValue, MissingAllowOriginHeader,
          MultipleAllowOriginValues, InvalidAllowOriginValue}"
  by (auto simp: getHeaderFromError_def)

lemma getProblemFromError_Inr_iff:
  "(\<exists>p. getProblemFromError s = Inr p) \<longleftrightarrow>
     corsError s \<in> {InvalidAllowHeadersPreflightResponse, InvalidAllowMethodsPreflightResponse,
          PreflightInvalidAllowOriginValue, InvalidAllowOriginValue,
          PreflightMultipleAllowOriginValues, MultipleAllowOriginValues,
          MissingAllowOriginHeader, PreflightMissingAllowOriginHeader,
          PreflightInvalidStatus, PreflightDisallowedRedirect}"
  by (auto simp: getProblemFromError_def Let_def)

lemma getProblemFromError_Inl: "getProblemFromError s = Inl err \<Longrightarrow> err = InvalidArgument"
  by (simp add: getProblemFromError_def Let_def split: if_splits)

lemma getHeaderFromError_Inl: "getHeaderFromError e = Inl err \<Longrightarrow> err = InvalidArgument"
  by (simp add: getHeaderFromError_def split: if_splits)

subsection \<open>Rows and the loop\<close>

lemma includes_str_sublist: "includes_str s t = sublist t s"
  by (induction s) (simp_all add: sublist_Cons_right)

lemma includes_str_iff: "includes_str s t \<longleftrightarrow> (\<exists>p q. s = p @ t @ q)"
  by (simp add: includes_str_sublist sublist_def)

text \<open>
  \<^verbatim>\<open>appendDetail\<close> builds its row without reading the view and writes the view once,
  when the row is complete.
\<close>

lemma appendDetail_shape:
  "\<exists>b. \<forall>v. appendDetail c i v =
     (case b of
        Inl err \<Rightarrow> (Some err, v)
      | Inr element \<Rightarrow> (None, v\<lparr>affectedResources := affectedResources v @ [element]\<rparr>))"
  unfolding appendDetail_def Let_def by (rule exI, rule allI, rule refl)

lemma appendDetail_Some:
  assumes "appendDetail c i v = (Some err, v')"
  shows "v' = v"
proof -
  from appendDetail_shape [of c i] obtain b
    where "appendDetail c i v =
      (case b of
         Inl err \<Rightarrow> (Some err, v)
       | Inr element \<Rightarrow> (None, v\<lparr>affectedResources := affectedResources v @ [element]\<rparr>))"
    by blast
  with assms show ?thesis by (cases b) simp_all
qed

lemma appendDetail_counts:
  assumes "appendDetail c i v = (ro, u)"
  shows "affectedResourceCounts u = affectedResourceCounts v"
proof -
  from appendDetail_shape [of c i] obtain b
    where "appendDetail c i v =
      (case b of
         Inl err \<Rightarrow> (Some err, v)
       | Inr element \<Rightarrow> (None, v\<lparr>affectedResources := affectedResources v @ [element]\<rparr>))"
    by blast
  with assms show ?thesis by (cases b) auto
qed



text \<open>
  The loop appends one row per record, in order, up to the first record on which
  \<^verbatim>\<open>appendDetail\<close> throws; when none does, it has counted the records.
\<close>

lemma appendDetails_loop_rows:
  assumes step: "\<And>i u u'. appendDetail c i u = (None, u') \<Longrightarrow>
            \<exists>row. u' = u\<lparr>affectedResources := affectedResources u @ [row]\<rparr> \<and> R i row"
    and run: "appendDetails_loop c issues n v = (r, m, v')"
  shows "\<exists>rows. v' = v\<lparr>affectedResources := affectedResources v @ rows\<rparr>
       \<and> list_all2 R (take (length rows) issues) rows
       \<and> (r = None \<longrightarrow> m = n + length issues \<and> length rows = length issues)"
  using run
proof (induction issues arbitrary: n v)
  case Nil
  then have "v' = v\<lparr>affectedResources := affectedResources v @ []\<rparr>" and "r = None" and "m = n"
    by simp_all
  then show ?case by fastforce
next
  case (Cons i rest)
  obtain ro u where u: "appendDetail c i v = (ro, u)"
    by (cases "appendDetail c i v")
  show ?case
  proof (cases ro)
    case None
    with Cons.prems u have rest: "appendDetails_loop c rest (Suc n) u = (r, m, v')"
      by simp
    from step u None obtain row
      where row: "u = v\<lparr>affectedResources := affectedResources v @ [row]\<rparr>" "R i row"
      by blast
    from Cons.IH [OF rest] obtain rows
      where rows: "v' = u\<lparr>affectedResources := affectedResources u @ rows\<rparr>"
          "list_all2 R (take (length rows) rest) rows"
          "r = None \<longrightarrow> m = Suc n + length rest \<and> length rows = length rest"
      by blast
    have "v' = v\<lparr>affectedResources := affectedResources v @ (row # rows)\<rparr>"
      using row(1) rows(1) by simp
    moreover have "list_all2 R (take (length (row # rows)) (i # rest)) (row # rows)"
      using row(2) rows(2) by simp
    moreover have "r = None \<longrightarrow>
        m = n + length (i # rest) \<and> length (row # rows) = length (i # rest)"
      using rows(3) by simp
    ultimately show ?thesis by blast
  next
    case (Some err)
    with Cons.prems u have "r = Some err" and "v' = u"
      by simp_all
    moreover from u Some have "u = v"
      using appendDetail_Some by blast
    ultimately have "v' = v\<lparr>affectedResources := affectedResources v @ []\<rparr>" and "r \<noteq> None"
      by simp_all
    then show ?thesis by fastforce
  qed
qed

text \<open>The loop counts, it does not report: it writes rows only.\<close>

lemma appendDetails_loop_counts:
  "appendDetails_loop c issues n v = (r, m, v') \<Longrightarrow>
     affectedResourceCounts v' = affectedResourceCounts v"
proof (induction issues arbitrary: n v)
  case Nil
  then show ?case by simp
next
  case (Cons i rest)
  obtain ro u where u: "appendDetail c i v = (ro, u)"
    by (cases "appendDetail c i v")
  note same = appendDetail_counts [OF u]
  show ?case
  proof (cases ro)
    case None
    with Cons.prems u have "appendDetails_loop c rest (Suc n) u = (r, m, v')"
      by simp
    from Cons.IH [OF this] same show ?thesis by simp
  next
    case (Some err)
    with Cons.prems u have "v' = u" by simp
    with same show ?thesis by simp
  qed
qed

subsection \<open>The header row and the rows under it\<close>

lemma headerRow_code:
  "headerRow InvalidHeaderValues =
     Some (Tr [] [ColumnTitle ''Request'', ColumnTitle ''Status'',
                  ColumnTitle ''Preflight Request (if problematic)'', ColumnTitle ''Header'',
                  ColumnTitle ''Problem'', ColumnTitle ''Invalid Value (if available)''])"
  "headerRow WildcardOriginNotAllowed =
     Some (Tr [] [ColumnTitle ''Request'', ColumnTitle ''Status'',
                  ColumnTitle ''Preflight Request (if problematic)''])"
  "headerRow PreflightResponseInvalid =
     Some (Tr [] [ColumnTitle ''Request'', ColumnTitle ''Status'',
                  ColumnTitle ''Preflight Request'', ColumnTitle ''Problem''])"
  "headerRow OriginMismatch =
     Some (Tr [] [ColumnTitle ''Request'', ColumnTitle ''Status'',
                  ColumnTitle ''Preflight Request (if problematic)'',
                  ColumnTitle ''Initiator Context'',
                  ColumnTitle ''Allowed Origin (from header)''])"
  "headerRow AllowCredentialsRequired =
     Some (Tr [] [ColumnTitle ''Request'', ColumnTitle ''Status'',
                  ColumnTitle ''Preflight Request (if problematic)'',
                  ColumnTitle UIStrings_allowCredentialsValueFromHeader])"
  "headerRow InsecurePrivateNetwork =
     Some (Tr [] [ColumnTitle ''Request'', ColumnTitle ''Status'',
                  ColumnTitle ''Resource Address'', ColumnTitle ''Initiator Address'',
                  ColumnTitle ''Initiator Context''])"
  "headerRow InsecurePrivateNetworkPreflight =
     Some (Tr [] [ColumnTitle ''Request'', ColumnTitle ''Status'',
                  ColumnTitle ''Resource Address'', ColumnTitle ''Initiator Address'',
                  ColumnTitle ''Initiator Context''])"
  "headerRow MethodDisallowedByPreflightResponse =
     Some (Tr [] [ColumnTitle ''Request'', ColumnTitle ''Status'',
                  ColumnTitle ''Preflight Request'', ColumnTitle ''Disallowed Request Method''])"
  "headerRow HeaderDisallowedByPreflightResponse =
     Some (Tr [] [ColumnTitle ''Request'', ColumnTitle ''Status'',
                  ColumnTitle ''Preflight Request'', ColumnTitle ''Disallowed Request Header''])"
  "headerRow RedirectContainsCredentials =
     Some (Tr [] [ColumnTitle ''Request'', ColumnTitle ''Status''])"
  "headerRow DisallowedByMode = None"
  "headerRow CorsDisabledScheme = None"
  "headerRow PreflightMissingAllowExternal = None"
  "headerRow PreflightInvalidAllowExternal = None"
  "headerRow InvalidResponse = None"
  by (simp_all add: headerRow_def appendDetails_def Let_def appendColumnTitle_def
        i18nString_def assertUnhandled_def updateAffectedResourceCount_def
        UIStrings_request_def UIStrings_status_def
        UIStrings_preflightRequestIfProblematic_def UIStrings_header_def
        UIStrings_problem_def UIStrings_invalidValue_def UIStrings_preflightRequest_def
        UIStrings_initiatorContext_def UIStrings_allowedOrigin_def
        UIStrings_resourceAddressSpace_def UIStrings_initiatorAddressSpace_def
        UIStrings_disallowedRequestMethod_def UIStrings_disallowedRequestHeader_def)

lemma appendDetails_headerRow:
  "appendDetails c issues v =
     (case headerRow c of
        None \<Rightarrow> (Some UnhandledVariant, v)
      | Some h \<Rightarrow>
          (case appendDetails_loop c issues 0
                  (v\<lparr>affectedResources := affectedResources v @ [h]\<rparr>) of
             (Some err, m, v') \<Rightarrow> (Some err, v')
           | (None, m, v') \<Rightarrow> (None, updateAffectedResourceCount m v')))"
  by (cases c; hypsubst;
      simp add: headerRow_code appendDetails_def Let_def appendColumnTitle_def
        i18nString_def assertUnhandled_def
        UIStrings_request_def UIStrings_status_def
        UIStrings_preflightRequestIfProblematic_def UIStrings_header_def
        UIStrings_problem_def UIStrings_invalidValue_def UIStrings_preflightRequest_def
        UIStrings_initiatorContext_def UIStrings_allowedOrigin_def
        UIStrings_resourceAddressSpace_def UIStrings_initiatorAddressSpace_def
        UIStrings_disallowedRequestMethod_def UIStrings_disallowedRequestHeader_def)

lemma headerRow_handled:
  "(\<exists>h. headerRow c = Some h) \<longleftrightarrow>
     c \<in> {InvalidHeaderValues, WildcardOriginNotAllowed, PreflightResponseInvalid,
          OriginMismatch, AllowCredentialsRequired, InsecurePrivateNetwork,
          InsecurePrivateNetworkPreflight, MethodDisallowedByPreflightResponse,
          HeaderDisallowedByPreflightResponse, RedirectContainsCredentials}"
  by (cases c; hypsubst; simp add: headerRow_code)

lemma headerRow_titles:
  "headerRow c = Some h \<Longrightarrow>
     classList h = [] \<and> (\<forall>x \<in> set (children h). \<exists>title. x = ColumnTitle title)"
  by (cases c; hypsubst; auto simp add: headerRow_code)

text \<open>
  A completed \<^verbatim>\<open>appendDetail\<close> appends one row: it has the class of a data row, as
  many cells as the header of its code, and starts with the request cell and the status
  cell of its record.
\<close>

lemma appendDetail_None:
  assumes "appendDetail c i u = (None, u')"
  shows "\<exists>h row. headerRow c = Some h
       \<and> u' = u\<lparr>affectedResources := affectedResources u @ [row]\<rparr>
       \<and> length (children row) = length (children h)
       \<and> classList row = [''affected-resource-directive'']
       \<and> take 2 (children row) =
           [RequestCell (request (details i)) False,
            if isWarning (details i)
            then StatusCell ''affected-resource-report-only-status'' ''warning''
            else StatusCell ''affected-resource-blocked-status'' ''blocked'']"
  using assms
  by (cases c; hypsubst;
      auto simp add: headerRow_code appendDetail_def Let_def assertUnhandled_def view_defs
        UIStrings_warning_def UIStrings_blocked_def
        split: sum.splits option.splits)

text \<open>
  \<^verbatim>\<open>appendDetails\<close> under a code that has a header: the header, then the rows of the
  loop; the count is reported when, and only when, no record made the loop throw.
\<close>

lemma appendDetails_rows:
  assumes h: "headerRow c = Some h" and run: "appendDetails c issues v = (r, v')"
  shows "\<exists>rows. affectedResources v' = affectedResources v @ h # rows
       \<and> list_all2 (\<lambda>i row. length (children row) = length (children h)
                \<and> classList row = [''affected-resource-directive'']
                \<and> take 2 (children row) =
                    [RequestCell (request (details i)) False,
                     if isWarning (details i)
                     then StatusCell ''affected-resource-report-only-status'' ''warning''
                     else StatusCell ''affected-resource-blocked-status'' ''blocked''])
            (take (length rows) issues) rows
       \<and> (r = None \<longrightarrow> length rows = length issues
              \<and> affectedResourceCounts v' = affectedResourceCounts v @ [length issues])
       \<and> (r \<noteq> None \<longrightarrow> affectedResourceCounts v' = affectedResourceCounts v)"
proof -
  let ?R = "\<lambda>i row. length (children row) = length (children h)
                \<and> classList row = [''affected-resource-directive'']
                \<and> take 2 (children row) =
                    [RequestCell (request (details i)) False,
                     if isWarning (details i)
                     then StatusCell ''affected-resource-report-only-status'' ''warning''
                     else StatusCell ''affected-resource-blocked-status'' ''blocked'']"
  let ?v = "v\<lparr>affectedResources := affectedResources v @ [h]\<rparr>"
  have step: "\<exists>row. u' = u\<lparr>affectedResources := affectedResources u @ [row]\<rparr> \<and> ?R i row"
    if "appendDetail c i u = (None, u')" for i u u'
    using appendDetail_None [OF that] h by auto
  obtain ro m u where loop: "appendDetails_loop c issues 0 ?v = (ro, m, u)"
    by (cases "appendDetails_loop c issues 0 ?v")
  from appendDetails_loop_rows [of c ?R, OF step loop]
  obtain rows where u: "u = ?v\<lparr>affectedResources := affectedResources ?v @ rows\<rparr>"
    and rows: "list_all2 ?R (take (length rows) issues) rows"
    and m: "ro = None \<longrightarrow> m = length issues \<and> length rows = length issues"
    by auto
  have counts: "affectedResourceCounts u = affectedResourceCounts v"
    using appendDetails_loop_counts [OF loop] by simp
  have res: "affectedResources u = affectedResources v @ h # rows"
    using u by simp
  show ?thesis
  proof (cases ro)
    case None
    with run h loop have "r = None" and "v' = updateAffectedResourceCount m u"
      by (simp_all add: appendDetails_headerRow)
    with None m counts res rows show ?thesis
      by (auto simp: updateAffectedResourceCount_def)
  next
    case (Some err)
    with run h loop have "r = Some err" and "v' = u"
      by (simp_all add: appendDetails_headerRow)
    with counts res rows show ?thesis by auto
  qed
qed

subsection \<open>Completion\<close>

text \<open>
  \<^verbatim>\<open>appendDetail\<close> completes under a handled code when the lookups that code uses
  accept the error kind of the record.
\<close>

lemma appendDetail_completes:
  assumes handled: "c \<in> {InvalidHeaderValues, WildcardOriginNotAllowed,
             PreflightResponseInvalid, OriginMismatch, AllowCredentialsRequired,
             InsecurePrivateNetwork, InsecurePrivateNetworkPreflight,
             MethodDisallowedByPreflightResponse, HeaderDisallowedByPreflightResponse,
             RedirectContainsCredentials}"
    and hdr: "c = InvalidHeaderValues \<longrightarrow>
             (\<exists>h. getHeaderFromError (corsError (corsErrorStatus (details i))) = Inr h)"
    and prob: "c = PreflightResponseInvalid \<longrightarrow>
             (\<exists>p. getProblemFromError (corsErrorStatus (details i)) = Inr p)"
  shows "fst (appendDetail c i u) = None"
proof (cases "c = InvalidHeaderValues")
  case True
  with hdr obtain h
    where h: "getHeaderFromError (corsError (corsErrorStatus (details i))) = Inr h"
    by blast
  then have "\<exists>p. getProblemFromError (corsErrorStatus (details i)) = Inr p"
    using getHeaderFromError_Inr_iff [of "corsError (corsErrorStatus (details i))"]
      getProblemFromError_Inr_iff [of "corsErrorStatus (details i)"]
    by blast
  then obtain p where "getProblemFromError (corsErrorStatus (details i)) = Inr p" ..
  with True h show ?thesis by (simp add: appendDetail_def Let_def)
next
  case notH: False
  show ?thesis
  proof (cases "c = PreflightResponseInvalid")
    case True
    with prob obtain p where "getProblemFromError (corsErrorStatus (details i)) = Inr p"
      by blast
    with True show ?thesis by (simp add: appendDetail_def Let_def)
  next
    case False
    with notH handled consider "c = WildcardOriginNotAllowed" | "c = OriginMismatch"
      | "c = AllowCredentialsRequired" | "c = InsecurePrivateNetwork"
      | "c = InsecurePrivateNetworkPreflight" | "c = MethodDisallowedByPreflightResponse"
      | "c = HeaderDisallowedByPreflightResponse" | "c = RedirectContainsCredentials"
      by blast
    then show ?thesis
      by cases (simp_all add: appendDetail_def Let_def)
  qed
qed

lemma appendDetails_loop_completes:
  assumes "\<And>i u. i \<in> set issues \<Longrightarrow> fst (appendDetail c i u) = None"
  shows "fst (appendDetails_loop c issues n v) = None"
  using assms
proof (induction issues arbitrary: n v)
  case Nil
  then show ?case by simp
next
  case (Cons i rest)
  obtain ro u where u: "appendDetail c i v = (ro, u)"
    by (cases "appendDetail c i v")
  with Cons.prems [of i v] have "ro = None" by simp
  with u Cons.IH [of "Suc n" u] Cons.prems show ?case by simp
qed

lemma appendDetails_completes:
  assumes h: "headerRow c = Some h"
    and rec: "\<And>i u. i \<in> set issues \<Longrightarrow> fst (appendDetail c i u) = None"
  shows "fst (appendDetails c issues v) = None"
proof -
  let ?v = "v\<lparr>affectedResources := affectedResources v @ [h]\<rparr>"
  obtain ro m u where loop: "appendDetails_loop c issues 0 ?v = (ro, m, u)"
    by (cases "appendDetails_loop c issues 0 ?v")
  with appendDetails_loop_completes [of issues c 0 ?v, OF rec] have "ro = None"
    by simp
  with h loop show ?thesis
    by (simp add: appendDetails_headerRow)
qed

subsection \<open>Rows by the code of the call\<close>



subsection \<open>The two lookups\<close>

text \<open>
  C5. \<^verbatim>\<open>getHeaderFromError\<close> maps eight error kinds, pairwise different, to a header
  name: \<^verbatim>\<open>InvalidAllowHeadersPreflightResponse\<close> to "Access-Control-Allow-Headers",
  \<^verbatim>\<open>InvalidAllowMethodsPreflightResponse\<close> to "Access-Control-Allow-Methods", and the
  six others, \<^verbatim>\<open>MissingAllowOriginHeader\<close> among them, to "Access-Control-Allow-Origin".
  It throws exactly on the inputs that are none of the eight.
\<close>

theorem getHeaderFromError_table:
  "getHeaderFromError InvalidAllowHeadersPreflightResponse = Inr ''Access-Control-Allow-Headers''
   \<and> getHeaderFromError InvalidAllowMethodsPreflightResponse = Inr ''Access-Control-Allow-Methods''
   \<and> getHeaderFromError PreflightMissingAllowOriginHeader = Inr ''Access-Control-Allow-Origin''
   \<and> getHeaderFromError PreflightMultipleAllowOriginValues = Inr ''Access-Control-Allow-Origin''
   \<and> getHeaderFromError PreflightInvalidAllowOriginValue = Inr ''Access-Control-Allow-Origin''
   \<and> getHeaderFromError MissingAllowOriginHeader = Inr ''Access-Control-Allow-Origin''
   \<and> getHeaderFromError MultipleAllowOriginValues = Inr ''Access-Control-Allow-Origin''
   \<and> getHeaderFromError InvalidAllowOriginValue = Inr ''Access-Control-Allow-Origin''
   \<and> distinct [InvalidAllowHeadersPreflightResponse, InvalidAllowMethodsPreflightResponse,
         PreflightMissingAllowOriginHeader, PreflightMultipleAllowOriginValues,
         PreflightInvalidAllowOriginValue, MissingAllowOriginHeader,
         MultipleAllowOriginValues, InvalidAllowOriginValue]
   \<and> (getHeaderFromError e = Inl InvalidArgument) =
       (e \<notin> set [InvalidAllowHeadersPreflightResponse, InvalidAllowMethodsPreflightResponse,
         PreflightMissingAllowOriginHeader, PreflightMultipleAllowOriginValues,
         PreflightInvalidAllowOriginValue, MissingAllowOriginHeader,
         MultipleAllowOriginValues, InvalidAllowOriginValue])"
proof -
  have d: "distinct [InvalidAllowHeadersPreflightResponse, InvalidAllowMethodsPreflightResponse,
         PreflightMissingAllowOriginHeader, PreflightMultipleAllowOriginValues,
         PreflightInvalidAllowOriginValue, MissingAllowOriginHeader,
         MultipleAllowOriginValues, InvalidAllowOriginValue]"
    using CorsError_distinct by simp
  have t: "getHeaderFromError InvalidAllowHeadersPreflightResponse = Inr ''Access-Control-Allow-Headers''"
    "getHeaderFromError InvalidAllowMethodsPreflightResponse = Inr ''Access-Control-Allow-Methods''"
    "getHeaderFromError PreflightMissingAllowOriginHeader = Inr ''Access-Control-Allow-Origin''"
    "getHeaderFromError PreflightMultipleAllowOriginValues = Inr ''Access-Control-Allow-Origin''"
    "getHeaderFromError PreflightInvalidAllowOriginValue = Inr ''Access-Control-Allow-Origin''"
    "getHeaderFromError MissingAllowOriginHeader = Inr ''Access-Control-Allow-Origin''"
    "getHeaderFromError MultipleAllowOriginValues = Inr ''Access-Control-Allow-Origin''"
    "getHeaderFromError InvalidAllowOriginValue = Inr ''Access-Control-Allow-Origin''"
    by (simp_all add: getHeaderFromError_def CorsError_defs)
  have f: "(getHeaderFromError e = Inl InvalidArgument) =
       (e \<notin> set [InvalidAllowHeadersPreflightResponse, InvalidAllowMethodsPreflightResponse,
         PreflightMissingAllowOriginHeader, PreflightMultipleAllowOriginValues,
         PreflightInvalidAllowOriginValue, MissingAllowOriginHeader,
         MultipleAllowOriginValues, InvalidAllowOriginValue])"
    by (simp add: getHeaderFromError_def)
  from d t f show ?thesis by blast
qed

text \<open>
  C6. \<^verbatim>\<open>getProblemFromError\<close> returns, on each of the ten error kinds of its switch, one
  of five phrases, pairwise different and each of them returned for some kind;
  \<^verbatim>\<open>PreflightDisallowedRedirect\<close> gives the phrase about the redirect. It throws
  exactly when the error kind is none of the ten.
\<close>

theorem getProblemFromError_table:
  "getProblemFromError (s\<lparr>corsError := PreflightDisallowedRedirect\<rparr>)
     = Inr ''Response to preflight was a redirect''
   \<and> (getProblemFromError s = Inl InvalidArgument) =
       (corsError s \<notin> set [InvalidAllowHeadersPreflightResponse,
          InvalidAllowMethodsPreflightResponse, PreflightInvalidAllowOriginValue,
          InvalidAllowOriginValue, PreflightMultipleAllowOriginValues,
          MultipleAllowOriginValues, MissingAllowOriginHeader,
          PreflightMissingAllowOriginHeader, PreflightInvalidStatus,
          PreflightDisallowedRedirect])
   \<and> (\<exists>err. getProblemFromError s = Inl err) = (getProblemFromError s = Inl InvalidArgument)
   \<and> {p. \<exists>st. getProblemFromError st = Inr p} =
       set [''Invalid Value'', ''Multiple Values'', ''Missing Header'',
            UIStrings_preflightInvalidStatus, ''Response to preflight was a redirect'']
   \<and> distinct [''Invalid Value'', ''Multiple Values'', ''Missing Header'',
            UIStrings_preflightInvalidStatus, ''Response to preflight was a redirect'']"
proof -
  have redirect: "getProblemFromError (s\<lparr>corsError := PreflightDisallowedRedirect\<rparr>)
     = Inr ''Response to preflight was a redirect''"
    by (simp add: getProblemFromError_def Let_def CorsError_defs i18nString_def
          UIStrings_preflightDisallowedRedirect_def)
  have fatal: "(getProblemFromError s = Inl InvalidArgument) =
       (corsError s \<notin> set [InvalidAllowHeadersPreflightResponse,
          InvalidAllowMethodsPreflightResponse, PreflightInvalidAllowOriginValue,
          InvalidAllowOriginValue, PreflightMultipleAllowOriginValues,
          MultipleAllowOriginValues, MissingAllowOriginHeader,
          PreflightMissingAllowOriginHeader, PreflightInvalidStatus,
          PreflightDisallowedRedirect])"
    by (simp add: getProblemFromError_def Let_def)
  have only: "(\<exists>err. getProblemFromError s = Inl err) = (getProblemFromError s = Inl InvalidArgument)"
    using getProblemFromError_Inl by blast
  have sub: "p \<in> set [''Invalid Value'', ''Multiple Values'', ''Missing Header'',
            UIStrings_preflightInvalidStatus, ''Response to preflight was a redirect'']"
    if "getProblemFromError st = Inr p" for st p
    using that
    by (auto simp: getProblemFromError_def Let_def i18nString_def
          UIStrings_problemInvalidValue_def UIStrings_problemMultipleValues_def
          UIStrings_problemMissingHeader_def UIStrings_preflightDisallowedRedirect_def
          split: if_splits)
  have at: "getProblemFromError \<lparr>corsError = InvalidAllowOriginValue, failedParameter = []\<rparr>
              = Inr ''Invalid Value''"
    "getProblemFromError \<lparr>corsError = MultipleAllowOriginValues, failedParameter = []\<rparr>
              = Inr ''Multiple Values''"
    "getProblemFromError \<lparr>corsError = MissingAllowOriginHeader, failedParameter = []\<rparr>
              = Inr ''Missing Header''"
    "getProblemFromError \<lparr>corsError = PreflightInvalidStatus, failedParameter = []\<rparr>
              = Inr UIStrings_preflightInvalidStatus"
    "getProblemFromError \<lparr>corsError = PreflightDisallowedRedirect, failedParameter = []\<rparr>
              = Inr ''Response to preflight was a redirect''"
    by (simp_all add: getProblemFromError_def Let_def CorsError_defs i18nString_def
          UIStrings_problemInvalidValue_def UIStrings_problemMultipleValues_def
          UIStrings_problemMissingHeader_def UIStrings_preflightDisallowedRedirect_def)
  have sup: "set [''Invalid Value'', ''Multiple Values'', ''Missing Header'',
            UIStrings_preflightInvalidStatus, ''Response to preflight was a redirect'']
          \<subseteq> {p. \<exists>st. getProblemFromError st = Inr p}"
    using at by auto
  have img: "{p. \<exists>st. getProblemFromError st = Inr p} =
       set [''Invalid Value'', ''Multiple Values'', ''Missing Header'',
            UIStrings_preflightInvalidStatus, ''Response to preflight was a redirect'']"
    using sub sup by blast
  have dist: "distinct [''Invalid Value'', ''Multiple Values'', ''Missing Header'',
            UIStrings_preflightInvalidStatus, ''Response to preflight was a redirect'']"
    by (simp add: UIStrings_preflightInvalidStatus_def)
  from redirect fatal only img dist show ?thesis by blast
qed

subsection \<open>The lookups of an \<^verbatim>\<open>InvalidHeaderValues\<close> row\<close>

text \<open>
  C9. Every error kind that \<^verbatim>\<open>getHeaderFromError\<close> accepts is accepted by
  \<^verbatim>\<open>getProblemFromError\<close>. So when the header lookup of an
  \<^verbatim>\<open>InvalidHeaderValues\<close> record succeeds, the problem lookup after it does not
  throw, and \<^verbatim>\<open>appendDetail\<close> completes.
\<close>

theorem header_errors_have_problem:
  assumes "getHeaderFromError (corsError s) = Inr h"
  shows "(\<exists>p. getProblemFromError s = Inr p)
       \<and> (corsErrorStatus (details issue) = s \<longrightarrow>
            fst (appendDetail InvalidHeaderValues issue v) = None)"
proof -
  from assms have "corsError s \<in> {InvalidAllowHeadersPreflightResponse,
          InvalidAllowMethodsPreflightResponse, PreflightMissingAllowOriginHeader,
          PreflightMultipleAllowOriginValues, PreflightInvalidAllowOriginValue,
          MissingAllowOriginHeader, MultipleAllowOriginValues, InvalidAllowOriginValue}"
    using getHeaderFromError_Inr_iff [of "corsError s"] by blast
  then have "\<exists>p. getProblemFromError s = Inr p"
    unfolding getProblemFromError_Inr_iff by blast
  then obtain p where p: "getProblemFromError s = Inr p" ..
  have "fst (appendDetail InvalidHeaderValues issue v) = None"
    if "corsErrorStatus (details issue) = s"
    using that assms p by (simp add: appendDetail_def Let_def)
  with p show ?thesis by blast
qed

theorem header_errors_have_problem_witness:
  "getHeaderFromError
     (corsError \<lparr>corsError = MissingAllowOriginHeader, failedParameter = ''https://b.test''\<rparr>)
     = Inr ''Access-Control-Allow-Origin''
   \<and> getProblemFromError
       \<lparr>corsError = MissingAllowOriginHeader, failedParameter = ''https://b.test''\<rparr>
       = Inr ''Missing Header''
   \<and> corsErrorStatus (details (example_issue InvalidHeaderValues MissingAllowOriginHeader))
       = \<lparr>corsError = MissingAllowOriginHeader, failedParameter = ''https://b.test''\<rparr>
   \<and> fst (appendDetail InvalidHeaderValues
            (example_issue InvalidHeaderValues MissingAllowOriginHeader) example_view) = None"
proof -
  have h: "getHeaderFromError
     (corsError \<lparr>corsError = MissingAllowOriginHeader, failedParameter = ''https://b.test''\<rparr>)
     = Inr ''Access-Control-Allow-Origin''"
    by (simp add: getHeaderFromError_def CorsError_defs)
  have e: "corsErrorStatus (details (example_issue InvalidHeaderValues MissingAllowOriginHeader))
       = \<lparr>corsError = MissingAllowOriginHeader, failedParameter = ''https://b.test''\<rparr>"
    by (simp add: example_issue_def)
  have p: "getProblemFromError
       \<lparr>corsError = MissingAllowOriginHeader, failedParameter = ''https://b.test''\<rparr>
       = Inr ''Missing Header''"
    by (simp add: getProblemFromError_def Let_def CorsError_defs i18nString_def
          UIStrings_problemMissingHeader_def)
  from header_errors_have_problem [OF h,
      of "example_issue InvalidHeaderValues MissingAllowOriginHeader" example_view] e
  have "fst (appendDetail InvalidHeaderValues
            (example_issue InvalidHeaderValues MissingAllowOriginHeader) example_view) = None"
    by blast
  with h e p show ?thesis by blast
qed

subsection \<open>Rendering: \<^verbatim>\<open>update\<close>\<close>

text \<open>
  C3. \<^verbatim>\<open>update\<close> clears the rendered content first: its result does not depend on the
  rows the container held before, and it is the result of rendering into the cleared
  container. With no record it reports the count 0 and leaves the container empty:
  neither a header row nor a data row is appended.
\<close>

theorem update_clears_and_empty_reports_zero:
  "update issues (v\<lparr>affectedResources := prior\<rparr>) = update issues v
   \<and> update issues v = update issues (clear v)
   \<and> affectedResources (clear v) = []
   \<and> update [] v =
       (None, v\<lparr>affectedResources := [],
                affectedResourceCounts := affectedResourceCounts v @ [0]\<rparr>)"
  by (simp add: update_def clear_def updateAffectedResourceCount_def)



subsection \<open>The default of the two switches\<close>

text \<open>
  C4. For each of the five codes outside the ten handled cases, \<^verbatim>\<open>appendDetails\<close>
  (the header) and \<^verbatim>\<open>appendDetail\<close> (a data row) reach the default of their switch
  and end with the failure of \<^verbatim>\<open>Platform.assertUnhandled\<close>; nothing is appended and
  no count is reported.
\<close>

theorem unhandled_code_fails:
  assumes "issueCode \<in> {DisallowedByMode, CorsDisabledScheme, PreflightMissingAllowExternal,
                         PreflightInvalidAllowExternal, InvalidResponse}"
  shows "appendDetails issueCode issues v = (Some UnhandledVariant, v)
       \<and> appendDetail issueCode issue v = (Some UnhandledVariant, v)"
proof -
  from assms consider "issueCode = DisallowedByMode" | "issueCode = CorsDisabledScheme"
    | "issueCode = PreflightMissingAllowExternal" | "issueCode = PreflightInvalidAllowExternal"
    | "issueCode = InvalidResponse"
    by blast
  then show ?thesis
    by cases (simp_all add: appendDetails_def appendDetail_def Let_def assertUnhandled_def)
qed

theorem unhandled_code_fails_witness:
  "CorsDisabledScheme \<in> {DisallowedByMode, CorsDisabledScheme, PreflightMissingAllowExternal,
                         PreflightInvalidAllowExternal, InvalidResponse}
   \<and> appendDetails CorsDisabledScheme [example_issue CorsDisabledScheme ''CorsDisabledScheme'']
         example_view = (Some UnhandledVariant, example_view)
   \<and> appendDetail CorsDisabledScheme (example_issue CorsDisabledScheme ''CorsDisabledScheme'')
         example_view = (Some UnhandledVariant, example_view)"
proof -
  have h: "CorsDisabledScheme \<in> {DisallowedByMode, CorsDisabledScheme,
             PreflightMissingAllowExternal, PreflightInvalidAllowExternal, InvalidResponse}"
    by simp
  from unhandled_code_fails [OF h] h show ?thesis by blast
qed

subsection \<open>Cells of a data row\<close>

text \<open>
  C7. Under \<^verbatim>\<open>WildcardOriginNotAllowed\<close>, \<^verbatim>\<open>OriginMismatch\<close> and
  \<^verbatim>\<open>AllowCredentialsRequired\<close> every record is rendered, and under
  \<^verbatim>\<open>InvalidHeaderValues\<close> every record whose error kind \<^verbatim>\<open>getHeaderFromError\<close>
  maps. The third cell of the row is the request cell linked to the preflight request when
  the text of the record's error kind contains "Preflight", and the empty cell when it
  does not. An \<^verbatim>\<open>InvalidHeaderValues\<close> record whose error kind is not mapped is not
  rendered: \<^verbatim>\<open>appendDetail\<close> throws and appends no row.
\<close>

theorem preflight_cell_iff_error_contains_Preflight:
  assumes "issueCode \<in> {InvalidHeaderValues, WildcardOriginNotAllowed, OriginMismatch,
                         AllowCredentialsRequired}"
  shows "if issueCode = InvalidHeaderValues
            \<and> getHeaderFromError (corsError (corsErrorStatus (details issue)))
                = Inl InvalidArgument
         then appendDetail issueCode issue v = (Some InvalidArgument, v)
         else (\<exists>row. appendDetail issueCode issue v =
                        (None, v\<lparr>affectedResources := affectedResources v @ [row]\<rparr>)
                \<and> 2 < length (children row)
                \<and> children row ! 2 =
                    (if \<exists>p q. corsError (corsErrorStatus (details issue))
                                = p @ ''Preflight'' @ q
                     then RequestCell (request (details issue)) True
                     else IssueDetailCell '''' None))"
proof -
  let ?e = "corsError (corsErrorStatus (details issue))"
  let ?cell = "if includes_str ?e ''Preflight''
               then RequestCell (request (details issue)) True
               else IssueDetailCell '''' None"
  let ?row = "\<lambda>row. appendDetail issueCode issue v =
                        (None, v\<lparr>affectedResources := affectedResources v @ [row]\<rparr>)
                \<and> 2 < length (children row)
                \<and> children row ! 2 = ?cell"
  have main: "if issueCode = InvalidHeaderValues \<and> getHeaderFromError ?e = Inl InvalidArgument
         then appendDetail issueCode issue v = (Some InvalidArgument, v)
         else (\<exists>row. ?row row)"
  proof (cases "issueCode = InvalidHeaderValues")
    case True
    show ?thesis
    proof (cases "getHeaderFromError ?e")
      case (Inl err)
      then have "err = InvalidArgument" by (rule getHeaderFromError_Inl)
      with True Inl show ?thesis
        by (simp add: appendDetail_def Let_def)
    next
      case (Inr h)
      then have "\<exists>p. getProblemFromError (corsErrorStatus (details issue)) = Inr p"
        using getHeaderFromError_Inr_iff [of ?e]
          getProblemFromError_Inr_iff [of "corsErrorStatus (details issue)"]
        by blast
      then obtain p where "getProblemFromError (corsErrorStatus (details issue)) = Inr p" ..
      with True Inr show ?thesis
        by (auto simp add: appendDetail_def Let_def view_defs nth_append)
    qed
  next
    case False
    with assms consider "issueCode = WildcardOriginNotAllowed" | "issueCode = OriginMismatch"
      | "issueCode = AllowCredentialsRequired"
      by blast
    then show ?thesis
      by cases (auto simp add: appendDetail_def Let_def view_defs nth_append)
  qed
  then show ?thesis
    by (simp only: includes_str_iff)
qed

theorem preflight_cell_iff_error_contains_Preflight_witness:
  "InvalidHeaderValues \<in> {InvalidHeaderValues, WildcardOriginNotAllowed, OriginMismatch,
                           AllowCredentialsRequired}
   \<and> WildcardOriginNotAllowed \<in> {InvalidHeaderValues, WildcardOriginNotAllowed,
                                  OriginMismatch, AllowCredentialsRequired}
   \<and> getHeaderFromError (corsError (corsErrorStatus (details
         (example_issue InvalidHeaderValues PreflightMissingAllowOriginHeader))))
       = Inr ''Access-Control-Allow-Origin''
   \<and> (\<exists>row. appendDetail InvalidHeaderValues
                (example_issue InvalidHeaderValues PreflightMissingAllowOriginHeader)
                example_view
              = (None, example_view\<lparr>affectedResources :=
                         affectedResources example_view @ [row]\<rparr>)
            \<and> 2 < length (children row)
            \<and> children row ! 2 = RequestCell example_request True)
   \<and> (\<exists>row. appendDetail WildcardOriginNotAllowed
                (example_issue WildcardOriginNotAllowed ''WildcardOriginNotAllowed'')
                example_view
              = (None, example_view\<lparr>affectedResources :=
                         affectedResources example_view @ [row]\<rparr>)
            \<and> 2 < length (children row)
            \<and> children row ! 2 = IssueDetailCell '''' None)
   \<and> getHeaderFromError (corsError (corsErrorStatus (details
         (example_issue InvalidHeaderValues PreflightInvalidStatus))))
       = Inl InvalidArgument
   \<and> appendDetail InvalidHeaderValues
        (example_issue InvalidHeaderValues PreflightInvalidStatus) example_view
       = (Some InvalidArgument, example_view)"
proof -
  have h1: "InvalidHeaderValues \<in> {InvalidHeaderValues, WildcardOriginNotAllowed,
              OriginMismatch, AllowCredentialsRequired}"
    and h2: "WildcardOriginNotAllowed \<in> {InvalidHeaderValues, WildcardOriginNotAllowed,
              OriginMismatch, AllowCredentialsRequired}"
    by simp_all
  have g1: "getHeaderFromError (corsError (corsErrorStatus (details
         (example_issue InvalidHeaderValues PreflightMissingAllowOriginHeader))))
       = Inr ''Access-Control-Allow-Origin''"
    and g3: "getHeaderFromError (corsError (corsErrorStatus (details
         (example_issue InvalidHeaderValues PreflightInvalidStatus))))
       = Inl InvalidArgument"
    by (simp_all add: getHeaderFromError_def CorsError_defs example_issue_def)
  have i1: "includes_str (corsError (corsErrorStatus (details
         (example_issue InvalidHeaderValues PreflightMissingAllowOriginHeader)))) ''Preflight''"
    and i2: "\<not> includes_str (corsError (corsErrorStatus (details
         (example_issue WildcardOriginNotAllowed ''WildcardOriginNotAllowed'')))) ''Preflight''"
    by (simp_all add: CorsError_defs example_issue_def)
  have rq: "request (details (example_issue c e)) = example_request" for c e
    by (simp add: example_issue_def)
  from preflight_cell_iff_error_contains_Preflight [OF h1,
      of "example_issue InvalidHeaderValues PreflightMissingAllowOriginHeader" example_view,
      unfolded includes_str_iff [symmetric]]
  have w1: "\<exists>row. appendDetail InvalidHeaderValues
                (example_issue InvalidHeaderValues PreflightMissingAllowOriginHeader)
                example_view
              = (None, example_view\<lparr>affectedResources :=
                         affectedResources example_view @ [row]\<rparr>)
            \<and> 2 < length (children row)
            \<and> children row ! 2 = RequestCell example_request True"
    using g1 i1 by (simp add: rq)
  from preflight_cell_iff_error_contains_Preflight [OF h2,
      of "example_issue WildcardOriginNotAllowed ''WildcardOriginNotAllowed''" example_view,
      unfolded includes_str_iff [symmetric]]
  have w2: "\<exists>row. appendDetail WildcardOriginNotAllowed
                (example_issue WildcardOriginNotAllowed ''WildcardOriginNotAllowed'')
                example_view
              = (None, example_view\<lparr>affectedResources :=
                         affectedResources example_view @ [row]\<rparr>)
            \<and> 2 < length (children row)
            \<and> children row ! 2 = IssueDetailCell '''' None"
    using i2 by (simp add: rq)
  from preflight_cell_iff_error_contains_Preflight [OF h1,
      of "example_issue InvalidHeaderValues PreflightInvalidStatus" example_view]
  have w3: "appendDetail InvalidHeaderValues
        (example_issue InvalidHeaderValues PreflightInvalidStatus) example_view
       = (Some InvalidArgument, example_view)"
    using g3 by simp
  from h1 h2 g1 w1 w2 g3 w3 show ?thesis by blast
qed

text \<open>
  C8. Under \<^verbatim>\<open>InsecurePrivateNetwork\<close> and \<^verbatim>\<open>InsecurePrivateNetworkPreflight\<close>
  every record is rendered, in a row of five cells; the text of the fifth, the third
  after request and status, is "secure" when \<^verbatim>\<open>initiatorIsSecureContext\<close> is true,
  "insecure" when it is false, and empty when it is undefined.
\<close>

theorem secure_context_cell_text:
  assumes "issueCode = InsecurePrivateNetwork \<or> issueCode = InsecurePrivateNetworkPreflight"
  shows "\<exists>row. appendDetail issueCode issue v =
                 (None, v\<lparr>affectedResources := affectedResources v @ [row]\<rparr>)
       \<and> length (children row) = 5
       \<and> children row ! 4 =
           IssueDetailCell
             (case Option.bind (clientSecurityState (details issue)) initiatorIsSecureContext of
                None \<Rightarrow> ''''
              | Some True \<Rightarrow> ''secure''
              | Some False \<Rightarrow> ''insecure'')
             None"
  using assms
  by (auto simp add: appendDetail_def Let_def view_defs UIStrings_secure_def
        UIStrings_insecure_def split: option.splits bool.splits)

theorem secure_context_cell_text_witness:
  "(InsecurePrivateNetwork = InsecurePrivateNetwork
      \<or> InsecurePrivateNetwork = InsecurePrivateNetworkPreflight)
   \<and> Option.bind (clientSecurityState (details
         (example_issue InsecurePrivateNetwork ''InsecurePrivateNetwork'')))
         initiatorIsSecureContext = Some False
   \<and> (\<exists>row. appendDetail InsecurePrivateNetwork
                (example_issue InsecurePrivateNetwork ''InsecurePrivateNetwork'') example_view
              = (None, example_view\<lparr>affectedResources :=
                         affectedResources example_view @ [row]\<rparr>)
            \<and> length (children row) = 5
            \<and> children row ! 4 = IssueDetailCell ''insecure'' None)"
proof -
  have h: "InsecurePrivateNetwork = InsecurePrivateNetwork
      \<or> InsecurePrivateNetwork = InsecurePrivateNetworkPreflight"
    by simp
  have s: "Option.bind (clientSecurityState (details
         (example_issue InsecurePrivateNetwork ''InsecurePrivateNetwork'')))
         initiatorIsSecureContext = Some False"
    by (simp add: example_issue_def)
  from secure_context_cell_text [OF h,
      of "example_issue InsecurePrivateNetwork ''InsecurePrivateNetwork''" example_view]
  show ?thesis using h s by simp
qed

subsection \<open>Header and rows of a rendering\<close>

text \<open>
  C1. For each of the ten codes the dispatch handles, \<^verbatim>\<open>appendDetails\<close> appends a
  header row made of column titles, and every data row it appends under it has as many
  cells as the header has titles (the Request and Status columns included); when it
  completes there is one such row per record.
\<close>

theorem header_columns_match_row_cells:
  assumes "issueCode \<in> {InvalidHeaderValues, WildcardOriginNotAllowed,
             PreflightResponseInvalid, OriginMismatch, AllowCredentialsRequired,
             InsecurePrivateNetwork, InsecurePrivateNetworkPreflight,
             MethodDisallowedByPreflightResponse, HeaderDisallowedByPreflightResponse,
             RedirectContainsCredentials}"
  shows "\<exists>header rows.
           affectedResources (snd (appendDetails issueCode issues v))
             = affectedResources v @ header # rows
         \<and> (fst (appendDetails issueCode issues v) = None \<longrightarrow> length rows = length issues)
         \<and> (\<forall>x \<in> set (children header). \<exists>title. x = ColumnTitle title)
         \<and> (\<forall>row \<in> set rows. length (children row) = length (children header))"
proof -
  from assms obtain h where h: "headerRow issueCode = Some h"
    using headerRow_handled [of issueCode] by blast
  obtain r v' where run: "appendDetails issueCode issues v = (r, v')"
    by (cases "appendDetails issueCode issues v")
  from appendDetails_rows [OF h run] obtain rows
    where res: "affectedResources v' = affectedResources v @ h # rows"
      and rows: "list_all2 (\<lambda>i row. length (children row) = length (children h)
                \<and> classList row = [''affected-resource-directive'']
                \<and> take 2 (children row) =
                    [RequestCell (request (details i)) False,
                     if isWarning (details i)
                     then StatusCell ''affected-resource-report-only-status'' ''warning''
                     else StatusCell ''affected-resource-blocked-status'' ''blocked''])
            (take (length rows) issues) rows"
      and len: "r = None \<longrightarrow> length rows = length issues"
    by blast
  have cells: "length (children row) = length (children h)" if "row \<in> set rows" for row
  proof -
    from that obtain k where "k < length rows" "rows ! k = row"
      by (auto simp: in_set_conv_nth)
    with rows show ?thesis by (auto dest: list_all2_nthD2)
  qed
  from run res len cells headerRow_titles [OF h] show ?thesis
    by (intro exI [of _ h] exI [of _ rows]) simp
qed

theorem header_columns_match_row_cells_witness:
  "OriginMismatch \<in> {InvalidHeaderValues, WildcardOriginNotAllowed,
             PreflightResponseInvalid, OriginMismatch, AllowCredentialsRequired,
             InsecurePrivateNetwork, InsecurePrivateNetworkPreflight,
             MethodDisallowedByPreflightResponse, HeaderDisallowedByPreflightResponse,
             RedirectContainsCredentials}
   \<and> appendDetails OriginMismatch example_issues_mismatch example_view
       = (None,
          \<lparr>affectedResources =
             [Tr [] [ColumnTitle ''Request''],
              Tr [] [ColumnTitle ''Request'', ColumnTitle ''Status'',
                     ColumnTitle ''Preflight Request (if problematic)'',
                     ColumnTitle ''Initiator Context'',
                     ColumnTitle ''Allowed Origin (from header)''],
              Tr [''affected-resource-directive'']
                 [RequestCell example_request False,
                  StatusCell ''affected-resource-blocked-status'' ''blocked'',
                  RequestCell example_request True,
                  IssueDetailCell ''https://a.test'' (Some ''code-example''),
                  IssueDetailCell ''https://b.test'' (Some ''code-example'')],
              Tr [''affected-resource-directive'']
                 [RequestCell example_request False,
                  StatusCell ''affected-resource-blocked-status'' ''blocked'',
                  IssueDetailCell '''' None,
                  IssueDetailCell ''https://a.test'' (Some ''code-example''),
                  IssueDetailCell ''https://b.test'' (Some ''code-example'')]],
           affectedResourceCounts = [7, 2]\<rparr>)
   \<and> (\<exists>header rows.
          affectedResources
            (snd (appendDetails OriginMismatch example_issues_mismatch example_view))
          = affectedResources example_view @ header # rows
        \<and> (fst (appendDetails OriginMismatch example_issues_mismatch example_view) = None
             \<longrightarrow> length rows = length example_issues_mismatch)
        \<and> (\<forall>x \<in> set (children header). \<exists>title. x = ColumnTitle title)
        \<and> (\<forall>row \<in> set rows. length (children row) = length (children header)))"
proof -
  have h: "OriginMismatch \<in> {InvalidHeaderValues, WildcardOriginNotAllowed,
             PreflightResponseInvalid, OriginMismatch, AllowCredentialsRequired,
             InsecurePrivateNetwork, InsecurePrivateNetworkPreflight,
             MethodDisallowedByPreflightResponse, HeaderDisallowedByPreflightResponse,
             RedirectContainsCredentials}"
    by simp
  have r: "appendDetails OriginMismatch example_issues_mismatch example_view
       = (None,
          \<lparr>affectedResources =
             [Tr [] [ColumnTitle ''Request''],
              Tr [] [ColumnTitle ''Request'', ColumnTitle ''Status'',
                     ColumnTitle ''Preflight Request (if problematic)'',
                     ColumnTitle ''Initiator Context'',
                     ColumnTitle ''Allowed Origin (from header)''],
              Tr [''affected-resource-directive'']
                 [RequestCell example_request False,
                  StatusCell ''affected-resource-blocked-status'' ''blocked'',
                  RequestCell example_request True,
                  IssueDetailCell ''https://a.test'' (Some ''code-example''),
                  IssueDetailCell ''https://b.test'' (Some ''code-example'')],
              Tr [''affected-resource-directive'']
                 [RequestCell example_request False,
                  StatusCell ''affected-resource-blocked-status'' ''blocked'',
                  IssueDetailCell '''' None,
                  IssueDetailCell ''https://a.test'' (Some ''code-example''),
                  IssueDetailCell ''https://b.test'' (Some ''code-example'')]],
           affectedResourceCounts = [7, 2]\<rparr>)"
    by (simp add: appendDetails_def appendDetail_def Let_def view_defs UIStrings_defs
          updateAffectedResourceCount_def example_issue_def example_view_def
          example_issues_mismatch_def)
  from header_columns_match_row_cells [OF h, of example_issues_mismatch example_view] h r
  show ?thesis by blast
qed

text \<open>
  C2, as stated, fails: on two \<^verbatim>\<open>InvalidHeaderValues\<close> records of which the second
  has an error kind that \<^verbatim>\<open>getHeaderFromError\<close> does not map, \<^verbatim>\<open>update\<close>
  throws after the header and one data row; no count is reported.
\<close>

theorem update_nonempty_counterexample:
  "update example_issues_unmapped example_view
   = (Some InvalidArgument,
      \<lparr>affectedResources =
         [Tr [] [ColumnTitle ''Request'', ColumnTitle ''Status'',
                 ColumnTitle ''Preflight Request (if problematic)'', ColumnTitle ''Header'',
                 ColumnTitle ''Problem'', ColumnTitle ''Invalid Value (if available)''],
          Tr [''affected-resource-directive'']
             [RequestCell example_request False,
              StatusCell ''affected-resource-blocked-status'' ''blocked'',
              IssueDetailCell '''' None,
              IssueDetailCell ''Access-Control-Allow-Origin'' (Some ''code-example''),
              IssueDetailCell ''Missing Header'' None,
              IssueDetailCell ''https://b.test'' (Some ''code-example'')]],
       affectedResourceCounts = [7]\<rparr>)"
  by (simp add: update_def clear_def appendDetails_def appendDetail_def Let_def view_defs
        UIStrings_defs CorsError_defs getHeaderFromError_def getProblemFromError_def
        updateAffectedResourceCount_def example_issue_def example_view_def
        example_issues_unmapped_def)

text \<open>
  C2, amended. Take a non-empty collection of N records whose first record has one of
  the ten handled codes and in which, when that code is \<^verbatim>\<open>InvalidHeaderValues\<close>, every
  error kind is one of the eight that \<^verbatim>\<open>getHeaderFromError\<close> maps and, when it is
  \<^verbatim>\<open>PreflightResponseInvalid\<close>, every error kind is one of the ten that
  \<^verbatim>\<open>getProblemFromError\<close> maps. Then \<^verbatim>\<open>update\<close> completes, reports the count N,
  and leaves in the container the header row followed by N data rows, one per record in
  iteration order, each starting with the request cell and the status cell of its record.
\<close>

theorem update_reports_count_and_appends_rows:
  assumes "issues \<noteq> []"
    and "code (hd issues) \<in> {InvalidHeaderValues, WildcardOriginNotAllowed,
             PreflightResponseInvalid, OriginMismatch, AllowCredentialsRequired,
             InsecurePrivateNetwork, InsecurePrivateNetworkPreflight,
             MethodDisallowedByPreflightResponse, HeaderDisallowedByPreflightResponse,
             RedirectContainsCredentials}"
    and "\<forall>i \<in> set issues.
           (code (hd issues) = InvalidHeaderValues \<longrightarrow>
              corsError (corsErrorStatus (details i)) \<in>
                {InvalidAllowHeadersPreflightResponse, InvalidAllowMethodsPreflightResponse,
                 PreflightMissingAllowOriginHeader, PreflightMultipleAllowOriginValues,
                 PreflightInvalidAllowOriginValue, MissingAllowOriginHeader,
                 MultipleAllowOriginValues, InvalidAllowOriginValue})
         \<and> (code (hd issues) = PreflightResponseInvalid \<longrightarrow>
              corsError (corsErrorStatus (details i)) \<in>
                {InvalidAllowHeadersPreflightResponse, InvalidAllowMethodsPreflightResponse,
                 PreflightInvalidAllowOriginValue, InvalidAllowOriginValue,
                 PreflightMultipleAllowOriginValues, MultipleAllowOriginValues,
                 MissingAllowOriginHeader, PreflightMissingAllowOriginHeader,
                 PreflightInvalidStatus, PreflightDisallowedRedirect})"
  shows "\<exists>header rows.
           update issues v =
             (None, \<lparr>affectedResources = header # rows,
                     affectedResourceCounts = affectedResourceCounts v @ [length issues]\<rparr>)
         \<and> length rows = length issues
         \<and> classList header = []
         \<and> (\<forall>x \<in> set (children header). \<exists>title. x = ColumnTitle title)
         \<and> list_all2 (\<lambda>issue row.
                classList row = [''affected-resource-directive'']
              \<and> take 2 (children row) =
                  [RequestCell (request (details issue)) False,
                   if isWarning (details issue)
                   then StatusCell ''affected-resource-report-only-status'' ''warning''
                   else StatusCell ''affected-resource-blocked-status'' ''blocked''])
              issues rows"
proof -
  let ?c = "code (hd issues)"
  from assms(2) obtain h where h: "headerRow ?c = Some h"
    using headerRow_handled [of ?c] by blast
  have rec: "fst (appendDetail ?c i u) = None" if "i \<in> set issues" for i u
  proof (rule appendDetail_completes [OF assms(2)])
    show "?c = InvalidHeaderValues \<longrightarrow>
            (\<exists>h. getHeaderFromError (corsError (corsErrorStatus (details i))) = Inr h)"
      using assms(3) that
        getHeaderFromError_Inr_iff [of "corsError (corsErrorStatus (details i))"]
      by blast
    show "?c = PreflightResponseInvalid \<longrightarrow>
            (\<exists>p. getProblemFromError (corsErrorStatus (details i)) = Inr p)"
      using assms(3) that getProblemFromError_Inr_iff [of "corsErrorStatus (details i)"]
      by blast
  qed
  from appendDetails_completes [OF h rec, of issues "clear v"]
  obtain v' where run: "appendDetails ?c issues (clear v) = (None, v')"
    by (cases "appendDetails ?c issues (clear v)") auto
  with assms(1) have upd: "update issues v = (None, v')"
    by (simp add: update_def)
  from appendDetails_rows [OF h run] obtain rows
    where res: "affectedResources v' = affectedResources (clear v) @ h # rows"
      and rows: "list_all2 (\<lambda>i row. length (children row) = length (children h)
                \<and> classList row = [''affected-resource-directive'']
                \<and> take 2 (children row) =
                    [RequestCell (request (details i)) False,
                     if isWarning (details i)
                     then StatusCell ''affected-resource-report-only-status'' ''warning''
                     else StatusCell ''affected-resource-blocked-status'' ''blocked''])
            (take (length rows) issues) rows"
      and len: "length rows = length issues"
      and counts: "affectedResourceCounts v' = affectedResourceCounts (clear v) @ [length issues]"
    by blast
  have "v' = \<lparr>affectedResources = h # rows,
              affectedResourceCounts = affectedResourceCounts v @ [length issues]\<rparr>"
    using counts res by (cases v') (simp add: clear_def)
  with upd have upd': "update issues v =
             (None, \<lparr>affectedResources = h # rows,
                     affectedResourceCounts = affectedResourceCounts v @ [length issues]\<rparr>)"
    by simp
  from rows len have "list_all2 (\<lambda>i row. length (children row) = length (children h)
                \<and> classList row = [''affected-resource-directive'']
                \<and> take 2 (children row) =
                    [RequestCell (request (details i)) False,
                     if isWarning (details i)
                     then StatusCell ''affected-resource-report-only-status'' ''warning''
                     else StatusCell ''affected-resource-blocked-status'' ''blocked''])
            issues rows"
    by simp
  then have rows': "list_all2 (\<lambda>issue row.
                 classList row = [''affected-resource-directive'']
               \<and> take 2 (children row) =
                   [RequestCell (request (details issue)) False,
                    if isWarning (details issue)
                    then StatusCell ''affected-resource-report-only-status'' ''warning''
                    else StatusCell ''affected-resource-blocked-status'' ''blocked''])
               issues rows"
    by (rule list_all2_mono) blast
  from upd' len rows' headerRow_titles [OF h] show ?thesis by blast
qed

theorem update_reports_count_and_appends_rows_witness:
  "example_issues_headers \<noteq> []
   \<and> code (hd example_issues_headers) = InvalidHeaderValues
   \<and> list_all (\<lambda>i.
         corsError (corsErrorStatus (details i)) \<in>
           {InvalidAllowHeadersPreflightResponse, InvalidAllowMethodsPreflightResponse,
            PreflightMissingAllowOriginHeader, PreflightMultipleAllowOriginValues,
            PreflightInvalidAllowOriginValue, MissingAllowOriginHeader,
            MultipleAllowOriginValues, InvalidAllowOriginValue})
       example_issues_headers
   \<and> example_issues_preflight \<noteq> []
   \<and> code (hd example_issues_preflight) = PreflightResponseInvalid
   \<and> list_all (\<lambda>i.
         corsError (corsErrorStatus (details i)) \<in>
           {InvalidAllowHeadersPreflightResponse, InvalidAllowMethodsPreflightResponse,
            PreflightInvalidAllowOriginValue, InvalidAllowOriginValue,
            PreflightMultipleAllowOriginValues, MultipleAllowOriginValues,
            MissingAllowOriginHeader, PreflightMissingAllowOriginHeader,
            PreflightInvalidStatus, PreflightDisallowedRedirect})
       example_issues_preflight
   \<and> update example_issues_headers example_view
       = (None,
          \<lparr>affectedResources =
             [Tr [] [ColumnTitle ''Request'', ColumnTitle ''Status'',
                     ColumnTitle ''Preflight Request (if problematic)'', ColumnTitle ''Header'',
                     ColumnTitle ''Problem'', ColumnTitle ''Invalid Value (if available)''],
              Tr [''affected-resource-directive'']
                 [RequestCell example_request False,
                  StatusCell ''affected-resource-blocked-status'' ''blocked'',
                  RequestCell example_request True,
                  IssueDetailCell ''Access-Control-Allow-Origin'' (Some ''code-example''),
                  IssueDetailCell ''Missing Header'' None,
                  IssueDetailCell ''https://b.test'' (Some ''code-example'')],
              Tr [''affected-resource-directive'']
                 [RequestCell example_request False,
                  StatusCell ''affected-resource-blocked-status'' ''blocked'',
                  IssueDetailCell '''' None,
                  IssueDetailCell ''Access-Control-Allow-Origin'' (Some ''code-example''),
                  IssueDetailCell ''Invalid Value'' None,
                  IssueDetailCell ''https://b.test'' (Some ''code-example'')]],
           affectedResourceCounts = [7, 2]\<rparr>)
   \<and> (\<exists>header rows.
          update example_issues_headers example_view =
            (None, \<lparr>affectedResources = header # rows,
                    affectedResourceCounts = [7, 2]\<rparr>)
        \<and> length rows = 2)
   \<and> (\<exists>header rows.
          update example_issues_preflight example_view =
            (None, \<lparr>affectedResources = header # rows,
                    affectedResourceCounts = [7, 2]\<rparr>)
        \<and> length rows = 2)"
proof -
  have n1: "example_issues_headers \<noteq> []"
    and c1: "code (hd example_issues_headers) = InvalidHeaderValues"
    and l1: "length example_issues_headers = 2"
    and n2: "example_issues_preflight \<noteq> []"
    and c2: "code (hd example_issues_preflight) = PreflightResponseInvalid"
    and l2: "length example_issues_preflight = 2"
    and cv: "affectedResourceCounts example_view = [7]"
    by (simp_all add: example_issues_headers_def example_issues_preflight_def
          example_issue_def example_view_def)
  have k1: "\<forall>i \<in> set example_issues_headers.
         corsError (corsErrorStatus (details i)) \<in>
           {InvalidAllowHeadersPreflightResponse, InvalidAllowMethodsPreflightResponse,
            PreflightMissingAllowOriginHeader, PreflightMultipleAllowOriginValues,
            PreflightInvalidAllowOriginValue, MissingAllowOriginHeader,
            MultipleAllowOriginValues, InvalidAllowOriginValue}"
    by (simp add: example_issues_headers_def example_issue_def)
  have k2: "\<forall>i \<in> set example_issues_preflight.
         corsError (corsErrorStatus (details i)) \<in>
           {InvalidAllowHeadersPreflightResponse, InvalidAllowMethodsPreflightResponse,
            PreflightInvalidAllowOriginValue, InvalidAllowOriginValue,
            PreflightMultipleAllowOriginValues, MultipleAllowOriginValues,
            MissingAllowOriginHeader, PreflightMissingAllowOriginHeader,
            PreflightInvalidStatus, PreflightDisallowedRedirect}"
    by (simp add: example_issues_preflight_def example_issue_def)
  have r: "update example_issues_headers example_view
       = (None,
          \<lparr>affectedResources =
             [Tr [] [ColumnTitle ''Request'', ColumnTitle ''Status'',
                     ColumnTitle ''Preflight Request (if problematic)'', ColumnTitle ''Header'',
                     ColumnTitle ''Problem'', ColumnTitle ''Invalid Value (if available)''],
              Tr [''affected-resource-directive'']
                 [RequestCell example_request False,
                  StatusCell ''affected-resource-blocked-status'' ''blocked'',
                  RequestCell example_request True,
                  IssueDetailCell ''Access-Control-Allow-Origin'' (Some ''code-example''),
                  IssueDetailCell ''Missing Header'' None,
                  IssueDetailCell ''https://b.test'' (Some ''code-example'')],
              Tr [''affected-resource-directive'']
                 [RequestCell example_request False,
                  StatusCell ''affected-resource-blocked-status'' ''blocked'',
                  IssueDetailCell '''' None,
                  IssueDetailCell ''Access-Control-Allow-Origin'' (Some ''code-example''),
                  IssueDetailCell ''Invalid Value'' None,
                  IssueDetailCell ''https://b.test'' (Some ''code-example'')]],
           affectedResourceCounts = [7, 2]\<rparr>)"
    by (simp add: update_def clear_def appendDetails_def appendDetail_def Let_def view_defs
          UIStrings_defs CorsError_defs getHeaderFromError_def getProblemFromError_def
          updateAffectedResourceCount_def example_issue_def example_view_def
          example_issues_headers_def)
  have w1: "\<exists>header rows.
          update example_issues_headers example_view =
            (None, \<lparr>affectedResources = header # rows,
                    affectedResourceCounts = [7, 2]\<rparr>)
        \<and> length rows = 2"
    using update_reports_count_and_appends_rows [of example_issues_headers example_view]
      n1 c1 k1 l1 cv
    by fastforce
  have w2: "\<exists>header rows.
          update example_issues_preflight example_view =
            (None, \<lparr>affectedResources = header # rows,
                    affectedResourceCounts = [7, 2]\<rparr>)
        \<and> length rows = 2"
    using update_reports_count_and_appends_rows [of example_issues_preflight example_view]
      n2 c2 k2 l2 cv
    by fastforce
  from n1 c1 k1 n2 c2 k2 r w1 w2 show ?thesis
    unfolding list_all_iff by blast
qed

end
